theory Spec2Isabelle
  imports Main
begin

section \<open>JavaScript values and the store\<close>

text \<open>
  The component module \<^verbatim>\<open>packages/moon/src/index.js\<close> works on plain JavaScript
  objects that are shared by reference: the \<^verbatim>\<open>data\<close> object handed to \<^verbatim>\<open>Moon\<close>
  becomes the prototype of every instance, and the handler arrays of its \<^verbatim>\<open>events\<close>
  object are mutated in place. Objects and arrays therefore live in a store, and a value
  refers to them by address.

  Function values are kept apart by identity. \<open>User n\<close> is a function supplied by the
  caller. \<open>Bound n f t\<close> is the fresh function object that \<^verbatim>\<open>f.bind(t)\<close> returns;
  \<open>n\<close> is taken from the allocation counter, so two bound copies of one function differ.
  The six module functions, a \<^verbatim>\<open>MoonComponent\<close> constructor (\<open>Constructor\<close>, with the
  address of its prototype) and the arrow functions of the module (with the variables they capture) are
  further cases. \<open>Native k\<close> is the built-in function that every plain object inherits
  as its member \<open>k\<close> from \<^verbatim>\<open>Object.prototype\<close>, and the value \<open>ObjectPrototype\<close> is
  that object itself.
\<close>

type_synonym addr = nat

datatype fn =
    User nat
  | Bound nat fn addr
  | LibCreate | LibUpdate | LibDestroy | LibOn | LibOff | LibEmit
  | Constructor addr
  | CreateDone addr val
  | UpdateDone addr val
  | DestroyDone addr val
  | MountDone val
  | Native string
and val =
    Undefined
  | Null
  | Num int
  | Str string
  | Fn fn
  | Obj addr
  | Arr addr
  | Node nat
  | ObjectPrototype

text \<open>
  What the module does to the outside is recorded in a trace: a call of a function it does
  not define (a handler, a \<^verbatim>\<open>next\<close> callback, \<^verbatim>\<open>view.data\<close>) with its \<^verbatim>\<open>this\<close> and
  arguments, a call of the imported \<^verbatim>\<open>execute\<close> with its five arguments, a call of
  \<^verbatim>\<open>appendChild\<close> on a document node, and a call of the imported \<^verbatim>\<open>error\<close>. These
  calls are taken to return normally and to leave the store alone.
\<close>

datatype event =
    Call fn val "val list"
  | Execute val val val val val
  | AppendChild nat val
  | ErrorLog val

text \<open>
  \<open>Unmodelled\<close> is not a JavaScript exception: it marks a run that leaves the part of
  the language this theory covers (such as a property read on a primitive, on a function,
  on an array or on a document node).
\<close>

datatype exn = TypeError | ReferenceError | SyntaxError string | Unmodelled

record world =
  objs :: "addr \<rightharpoonup> (string \<rightharpoonup> val)"
  protos :: "addr \<rightharpoonup> addr"
  arrs :: "addr \<rightharpoonup> val list"
  nxt :: nat
  components :: "string \<rightharpoonup> val"
  trace :: "event list"

text \<open>
  The surroundings of the module that are not in the repository's sources are parameters:
  the imported \<^verbatim>\<open>compile\<close> (it throws, or returns a fresh view object with the given
  members), the build flag \<^verbatim>\<open>process.env.MOON_ENV === "development"\<close>, the binding of
  the free identifier \<^verbatim>\<open>name\<close> (the module declares none, so it is the global of that
  name, if there is one), \<^verbatim>\<open>document.querySelector\<close> and \<^verbatim>\<open>performance.now()\<close>.
\<close>

record env =
  compile :: "string \<Rightarrow> string + (string \<rightharpoonup> val)"
  development :: bool
  global_name :: "string option"
  querySelector :: "string \<Rightarrow> val"
  now :: int

type_synonym 'a result = "(exn + 'a) \<times> world"

subsection \<open>Property access\<close>

definition own :: "world \<Rightarrow> addr \<Rightarrow> string \<Rightarrow> val option" where
  "own w a k = (case objs w a of None \<Rightarrow> None | Some ps \<Rightarrow> ps k)"

text \<open>
  Every prototype chain of the store ends in \<^verbatim>\<open>Object.prototype\<close>, which the module
  never changes. Its function-valued members are listed with the value of their
  \<^verbatim>\<open>length\<close> property (\<^verbatim>\<open>constructor\<close> is \<^verbatim>\<open>Object\<close>); they have no member
  \<^verbatim>\<open>0\<close>, \<^verbatim>\<open>push\<close>, \<^verbatim>\<open>splice\<close> or \<^verbatim>\<open>indexOf\<close>, and \<^verbatim>\<open>Object.prototype\<close> has no member
  \<^verbatim>\<open>length\<close>.
\<close>

definition Object_prototype :: "(string \<times> nat) list" where
  "Object_prototype =
     [(''constructor'', 1), (''hasOwnProperty'', 1), (''isPrototypeOf'', 1),
      (''propertyIsEnumerable'', 1), (''toLocaleString'', 0), (''toString'', 0),
      (''valueOf'', 0), (''__defineGetter__'', 2), (''__defineSetter__'', 2),
      (''__lookupGetter__'', 1), (''__lookupSetter__'', 1)]"

text \<open>
  What a property read finds at the end of the chain of an object whose prototype is
  \<open>proto\<close>: the accessor \<^verbatim>\<open>__proto__\<close> returns the prototype of the object that is
  read, a function-valued member is that function, and any other name is undefined.
\<close>

definition inherited :: "val \<Rightarrow> string \<Rightarrow> val" where
  "inherited proto k =
     (if k = ''__proto__'' then proto
      else case map_of Object_prototype k of
             Some n \<Rightarrow> Fn (Native k)
           | None \<Rightarrow> Undefined)"

text \<open>
  \<^verbatim>\<open>a[k]\<close> on an object: its own property, else its prototype's, else what
  \<^verbatim>\<open>Object.prototype\<close> has under that name. An object made by an object literal has
  \<^verbatim>\<open>Object.prototype\<close> as its prototype (no entry in \<open>protos\<close>); the prototype of an
  instance is the \<^verbatim>\<open>data\<close> argument of \<^verbatim>\<open>Moon\<close>, taken to be such a plain object, so
  the chain of an instance has one link before \<^verbatim>\<open>Object.prototype\<close>.
\<close>

definition lookup :: "world \<Rightarrow> addr \<Rightarrow> string \<Rightarrow> val" where
  "lookup w a k =
     (case own w a k of
        Some v \<Rightarrow> v
      | None \<Rightarrow>
          (case protos w a of
             None \<Rightarrow> inherited ObjectPrototype k
           | Some p \<Rightarrow> (case own w p k of Some v \<Rightarrow> v | None \<Rightarrow> inherited (Obj p) k)))"

text \<open>\<^verbatim>\<open>v[k]\<close> on any value: a TypeError on \<^verbatim>\<open>undefined\<close> and \<^verbatim>\<open>null\<close>.\<close>

definition read_prop :: "world \<Rightarrow> val \<Rightarrow> string \<Rightarrow> exn + val" where
  "read_prop w v k =
     (case v of
        Undefined \<Rightarrow> Inl TypeError
      | Null \<Rightarrow> Inl TypeError
      | Obj a \<Rightarrow> Inr (lookup w a k)
      | _ \<Rightarrow> Inl Unmodelled)"

definition props_of :: "world \<Rightarrow> addr \<Rightarrow> (string \<rightharpoonup> val)" where
  "props_of w a = (case objs w a of None \<Rightarrow> Map.empty | Some ps \<Rightarrow> ps)"

text \<open>
  \<^verbatim>\<open>a[k] = v\<close> makes or overwrites the own property \<open>k\<close> of the object. This is what an
  assignment does for every name but \<^verbatim>\<open>__proto__\<close>, whose assignment goes to the setter
  that \<^verbatim>\<open>Object.prototype\<close> has for it unless the object has an own property of that
  name; the module assigns under the fixed names of its own and under the names that its
  caller gives (an event type, the keys of the data handed to \<^verbatim>\<open>update\<close> and to the
  constructor), and the caller is taken not to give \<^verbatim>\<open>__proto__\<close> there.
\<close>

definition set_prop :: "addr \<Rightarrow> string \<Rightarrow> val \<Rightarrow> world \<Rightarrow> world" where
  "set_prop a k v w = w\<lparr>objs := (objs w)(a \<mapsto> (props_of w a)(k \<mapsto> v))\<rparr>"

definition del_prop :: "addr \<Rightarrow> string \<Rightarrow> world \<Rightarrow> world" where
  "del_prop a k w = w\<lparr>objs := (objs w)(a \<mapsto> (props_of w a)(k := None))\<rparr>"

text \<open>\<^verbatim>\<open>for (let key in data) { this[key] = data[key]; }\<close>, with \<open>d\<close> the enumerable
  properties of \<^verbatim>\<open>data\<close> (none when \<^verbatim>\<open>data\<close> is \<^verbatim>\<open>undefined\<close>).\<close>

definition copy_props :: "addr \<Rightarrow> (string \<rightharpoonup> val) \<Rightarrow> world \<Rightarrow> world" where
  "copy_props a d w = w\<lparr>objs := (objs w)(a \<mapsto> props_of w a ++ d)\<rparr>"

text \<open>A new object, a new array and a new function object take the address \<open>nxt w\<close>.\<close>

definition alloc_obj :: "(string \<rightharpoonup> val) \<Rightarrow> addr option \<Rightarrow> world \<Rightarrow> world" where
  "alloc_obj ps p w =
     w\<lparr>objs := (objs w)(nxt w \<mapsto> ps), protos := (protos w)(nxt w := p), nxt := Suc (nxt w)\<rparr>"

definition alloc_arr :: "val list \<Rightarrow> world \<Rightarrow> world" where
  "alloc_arr xs w = w\<lparr>arrs := (arrs w)(nxt w \<mapsto> xs), nxt := Suc (nxt w)\<rparr>"

definition tick :: "world \<Rightarrow> world" where
  "tick w = w\<lparr>nxt := Suc (nxt w)\<rparr>"

definition set_arr :: "addr \<Rightarrow> val list \<Rightarrow> world \<Rightarrow> world" where
  "set_arr a xs w = w\<lparr>arrs := (arrs w)(a \<mapsto> xs)\<rparr>"

text \<open>\<^verbatim>\<open>a.push(v)\<close> on the array at address \<open>a\<close>.\<close>

definition push :: "addr \<Rightarrow> val \<Rightarrow> world \<Rightarrow> world" where
  "push a v w = set_arr a ((case arrs w a of None \<Rightarrow> [] | Some xs \<Rightarrow> xs) @ [v]) w"

definition log :: "event \<Rightarrow> world \<Rightarrow> world" where
  "log e w = w\<lparr>trace := trace w @ [e]\<rparr>"

text \<open>\<^verbatim>\<open>components[g] = v\<close> on the module's registry.\<close>

definition register :: "string \<Rightarrow> val \<Rightarrow> world \<Rightarrow> world" where
  "register g v w = w\<lparr>components := (components w)(g \<mapsto> v)\<rparr>"

definition empty_world :: world where
  "empty_world =
     \<lparr>objs = Map.empty, protos = Map.empty, arrs = Map.empty, nxt = 0,
      components = Map.empty, trace = []\<rparr>"

subsection \<open>Sequencing\<close>

text \<open>
  A statement either throws, and the rest of the function body is skipped, or hands its
  value and the store it leaves to the next statement.
\<close>

definition seq :: "'a result \<Rightarrow> ('a \<Rightarrow> world \<Rightarrow> 'b result) \<Rightarrow> 'b result" where
  "seq r f = (case fst r of Inl e \<Rightarrow> (Inl e, snd r) | Inr x \<Rightarrow> f x (snd r))"

subsection \<open>Calls\<close>

text \<open>A bound function runs its target with the bound \<^verbatim>\<open>this\<close>.\<close>

fun callee :: "fn \<Rightarrow> val \<Rightarrow> fn \<times> val" where
  "callee (Bound n f t) this = callee f (Obj t)"
| "callee f this = (f, this)"

text \<open>
  \<^verbatim>\<open>f.call(this, ...args)\<close>. A value that is no function cannot be called. The arrow
  \<^verbatim>\<open>(instanceElement) => { root.appendChild(instanceElement); }\<close> of \<^verbatim>\<open>Moon\<close> is run,
  what a member of \<^verbatim>\<open>Object.prototype\<close> does when it is called is not modelled, and
  every other function is recorded as called.
\<close>

definition call_val :: "val \<Rightarrow> val \<Rightarrow> val list \<Rightarrow> world \<Rightarrow> unit result" where
  "call_val f this args w =
     (case f of
        Fn g \<Rightarrow>
          (case fst (callee g this) of
             MountDone root \<Rightarrow>
               (case root of
                  Node n \<Rightarrow>
                    (Inr (), log (AppendChild n (case args of [] \<Rightarrow> Undefined | x # _ \<Rightarrow> x)) w)
                | Undefined \<Rightarrow> (Inl TypeError, w)
                | Null \<Rightarrow> (Inl TypeError, w)
                | _ \<Rightarrow> (Inl Unmodelled, w))
           | Native k \<Rightarrow> (Inl Unmodelled, w)
           | h \<Rightarrow> (Inr (), log (Call h (snd (callee g this)) args) w))
      | _ \<Rightarrow> (Inl TypeError, w))"

text \<open>\<^verbatim>\<open>handler.bind(this)\<close>: a fresh function object.\<close>

definition bind_fn :: "val \<Rightarrow> addr \<Rightarrow> world \<Rightarrow> val result" where
  "bind_fn handler this w =
     (case handler of
        Fn f \<Rightarrow> (Inr (Fn (Bound (nxt w) f this)), tick w)
      | Obj a \<Rightarrow> (Inl Unmodelled, w)
      | _ \<Rightarrow> (Inl TypeError, w))"

text \<open>The imported \<^verbatim>\<open>execute\<close> is not defined in this module: its call is recorded.\<close>

definition execute :: "val \<Rightarrow> val \<Rightarrow> val \<Rightarrow> val \<Rightarrow> val \<Rightarrow> world \<Rightarrow> unit result" where
  "execute flags start scope routine onComplete w =
     (Inr (), log (Execute flags start scope routine onComplete) w)"

subsection \<open>The event emitter: \<^verbatim>\<open>on\<close>, \<^verbatim>\<open>off\<close>, \<^verbatim>\<open>emit\<close>\<close>

text \<open>The values that a read of \<^verbatim>\<open>events[type]\<close> can find on \<^verbatim>\<open>Object.prototype\<close>:
  that object itself and its functions.\<close>

definition inherited_member :: "val \<Rightarrow> bool" where
  "inherited_member v =
     (case v of
        ObjectPrototype \<Rightarrow> True
      | Fn f \<Rightarrow> (case f of Native k \<Rightarrow> map_of Object_prototype k \<noteq> None | _ \<Rightarrow> False)
      | _ \<Rightarrow> False)"

text \<open>
  \<^verbatim>\<open>
  function on(type, handler) {
    const handlers = this.events[type];
    if (handlers === undefined) {
      this.events[type] = [handler.bind(this)];
    } else {
      handlers.push(handler.bind(this));
    }
  }
  \<close>
  \<open>i\<close> is the address of \<^verbatim>\<open>this\<close>. When \<^verbatim>\<open>events[type]\<close> is a member inherited from
  \<^verbatim>\<open>Object.prototype\<close>, the value \<^verbatim>\<open>handlers.push\<close> is undefined: the argument
  \<^verbatim>\<open>handler.bind(this)\<close> is evaluated and the call then throws a TypeError.
\<close>

definition on :: "addr \<Rightarrow> string \<Rightarrow> val \<Rightarrow> world \<Rightarrow> unit result" where
  "on i type handler w =
     seq (read_prop w (lookup w i ''events'') type, w) (\<lambda>handlers w.
       case handlers of
         Undefined \<Rightarrow>
           seq (bind_fn handler i w) (\<lambda>b w.
             case lookup w i ''events'' of
               Obj ev \<Rightarrow> (Inr (), set_prop ev type (Arr (nxt w)) (alloc_arr [b] w))
             | _ \<Rightarrow> (Inl Unmodelled, w))
       | Arr a \<Rightarrow>
           seq (bind_fn handler i w) (\<lambda>b w.
             case arrs w a of
               None \<Rightarrow> (Inl Unmodelled, w)
             | Some hs \<Rightarrow> (Inr (), push a b w))
       | Null \<Rightarrow> (Inl TypeError, w)
       | _ \<Rightarrow>
           if inherited_member handlers
           then seq (bind_fn handler i w) (\<lambda>b w. (Inl TypeError, w))
           else (Inl Unmodelled, w))"

text \<open>\<^verbatim>\<open>handlers.indexOf(handler)\<close>: the first index whose element is strictly equal
  to \<^verbatim>\<open>handler\<close>, or \<open>-1\<close>.\<close>

fun indexOf :: "val list \<Rightarrow> val \<Rightarrow> int" where
  "indexOf [] h = -1"
| "indexOf (x # xs) h =
     (if x = h then 0 else (let r = indexOf xs h in if r < 0 then -1 else r + 1))"

text \<open>\<^verbatim>\<open>handlers.splice(start, 1)\<close>: a negative \<^verbatim>\<open>start\<close> counts from the end.\<close>

definition splice1 :: "val list \<Rightarrow> int \<Rightarrow> val list" where
  "splice1 xs start =
     (let n = int (length xs);
          k = nat (if start < 0 then max (n + start) 0 else min start n)
      in take k xs @ drop (Suc k) xs)"

text \<open>
  \<^verbatim>\<open>
  function off(type, handler) {
    if (type === undefined) {
      this.events = {};
    } else if (handler === undefined) {
      this.events[type] = [];
    } else {
      const handlers = this.events[type];
      handlers.splice(handlers.indexOf(handler), 1);
    }
  }
  \<close>
  The optional \<^verbatim>\<open>type\<close> is \<open>None\<close> when it is \<^verbatim>\<open>undefined\<close>. When \<^verbatim>\<open>events[type]\<close>
  is a member inherited from \<^verbatim>\<open>Object.prototype\<close>, the value \<^verbatim>\<open>handlers.indexOf\<close> is
  undefined and its call throws a TypeError.
\<close>

definition off :: "addr \<Rightarrow> string option \<Rightarrow> val \<Rightarrow> world \<Rightarrow> unit result" where
  "off i type handler w =
     (case type of
        None \<Rightarrow> (Inr (), set_prop i ''events'' (Obj (nxt w)) (alloc_obj Map.empty None w))
      | Some t \<Rightarrow>
          if handler = Undefined then
            (case lookup w i ''events'' of
               Obj ev \<Rightarrow> (Inr (), set_prop ev t (Arr (nxt w)) (alloc_arr [] w))
             | Undefined \<Rightarrow> (Inl TypeError, w)
             | Null \<Rightarrow> (Inl TypeError, w)
             | _ \<Rightarrow> (Inl Unmodelled, w))
          else
            seq (read_prop w (lookup w i ''events'') t, w) (\<lambda>handlers w.
              case handlers of
                Arr a \<Rightarrow>
                  (case arrs w a of
                     None \<Rightarrow> (Inl Unmodelled, w)
                   | Some hs \<Rightarrow> (Inr (), set_arr a (splice1 hs (indexOf hs handler)) w))
              | Undefined \<Rightarrow> (Inl TypeError, w)
              | Null \<Rightarrow> (Inl TypeError, w)
              | _ \<Rightarrow>
                  if inherited_member handlers then (Inl TypeError, w)
                  else (Inl Unmodelled, w)))"

text \<open>
  \<^verbatim>\<open>
  function emit(type, data) {
    const handlers = this.events[type];
    for (let i = 0; i < handlers.length; i++) {
      handlers[i](data);
    }
  }
  \<close>
  The loop reads \<^verbatim>\<open>handlers.length\<close> again in every round, and \<^verbatim>\<open>handlers[i](data)\<close>
  is a call on a member of the array, so the array is its \<^verbatim>\<open>this\<close>. A handler that
  throws ends the loop.

  \<^verbatim>\<open>events[type]\<close> need not be an array. On \<^verbatim>\<open>undefined\<close> and \<^verbatim>\<open>null\<close> the read of
  \<^verbatim>\<open>length\<close> throws. On a function inherited from \<^verbatim>\<open>Object.prototype\<close> the loop runs
  up to the \<^verbatim>\<open>length\<close> of that function: with length 0 there is no round, and else the
  first round calls \<^verbatim>\<open>handlers[0]\<close>, which is undefined, and throws. On
  \<^verbatim>\<open>Object.prototype\<close> itself \<^verbatim>\<open>handlers.length\<close> is undefined, \<^verbatim>\<open>0 < undefined\<close> is
  false and there is no round.
\<close>

function emit_loop :: "addr \<Rightarrow> val \<Rightarrow> nat \<Rightarrow> world \<Rightarrow> unit result" where
  "emit_loop h d i w =
     (case arrs w h of
        None \<Rightarrow> (Inl Unmodelled, w)
      | Some hs \<Rightarrow>
          if i < length hs then
            (let r = call_val (hs ! i) (Arr h) [d] w
             in case fst r of
                  Inl e \<Rightarrow> (Inl e, snd r)
                | Inr u \<Rightarrow> emit_loop h d (Suc i) (snd r))
          else (Inr (), w))"
  by pat_completeness auto
termination
proof (relation "measure (\<lambda>(h, d, i, w). case arrs w h of None \<Rightarrow> 0 | Some hs \<Rightarrow> length hs - i)")
  show "wf (measure (\<lambda>(h, d, i, w). case arrs w h of None \<Rightarrow> 0 | Some hs \<Rightarrow> length hs - i))"
    by simp
next
  fix h :: addr and d :: val and i :: nat and w :: world and hs :: "val list"
    and r :: "unit result" and u :: unit
  assume a: "arrs w h = Some hs" and lt: "i < length hs"
    and c: "r = call_val (hs ! i) (Arr h) [d] w"
  have "arrs (snd (call_val (hs ! i) (Arr h) [d] w)) = arrs w"
    by (simp add: call_val_def log_def split: val.splits fn.splits)
  with c have "arrs (snd r) = arrs w"
    by simp
  with a lt
  show "((h, d, Suc i, snd r), (h, d, i, w))
        \<in> measure (\<lambda>(h, d, i, w). case arrs w h of None \<Rightarrow> 0 | Some hs \<Rightarrow> length hs - i)"
    by simp
qed

definition emit_native :: "string \<Rightarrow> world \<Rightarrow> unit result" where
  "emit_native k w =
     (case map_of Object_prototype k of
        None \<Rightarrow> (Inl Unmodelled, w)
      | Some n \<Rightarrow> if 0 < n then (Inl TypeError, w) else (Inr (), w))"

definition emit :: "addr \<Rightarrow> string \<Rightarrow> val \<Rightarrow> world \<Rightarrow> unit result" where
  "emit i type d w =
     seq (read_prop w (lookup w i ''events'') type, w) (\<lambda>handlers w.
       case handlers of
         Arr h \<Rightarrow> emit_loop h d 0 w
       | Undefined \<Rightarrow> (Inl TypeError, w)
       | Null \<Rightarrow> (Inl TypeError, w)
       | ObjectPrototype \<Rightarrow> (Inr (), w)
       | Fn f \<Rightarrow> (case f of Native k \<Rightarrow> emit_native k w | _ \<Rightarrow> (Inl Unmodelled, w))
       | _ \<Rightarrow> (Inl Unmodelled, w))"

subsection \<open>The lifecycle entry points: \<^verbatim>\<open>create\<close>, \<^verbatim>\<open>update\<close>, \<^verbatim>\<open>destroy\<close>\<close>

text \<open>
  \<^verbatim>\<open>
  function create(next, start) {
    this.view.data();
    execute(0, start === undefined ? performance.now() : start, this, this.view.create,
      (element) => { this.emit("create", element); if (next !== undefined) { next(element); } });
  }
  \<close>
  The arrow function is the value \<open>Fn (CreateDone i next)\<close>; what it does when it is
  called is \<open>complete\<close> below.
\<close>

definition create :: "env \<Rightarrow> addr \<Rightarrow> val \<Rightarrow> val \<Rightarrow> world \<Rightarrow> unit result" where
  "create E i next start w =
     seq (read_prop w (lookup w i ''view'') ''data'', w) (\<lambda>f w.
     seq (call_val f (lookup w i ''view'') [] w) (\<lambda>u w.
     seq (read_prop w (lookup w i ''view'') ''create'', w) (\<lambda>routine w.
       execute (Num 0) (if start = Undefined then Num (now E) else start)
         (Obj i) routine (Fn (CreateDone i next)) w)))"

text \<open>
  \<^verbatim>\<open>
  function update(data, next, start) {
    for (let key in data) { this[key] = data[key]; }
    execute(0, start === undefined ? performance.now() : start, this, this.view.update,
      () => { this.emit("update"); if (next !== undefined) { next(); } });
  }
  \<close>
\<close>

definition update :: "env \<Rightarrow> addr \<Rightarrow> (string \<rightharpoonup> val) \<Rightarrow> val \<Rightarrow> val \<Rightarrow> world \<Rightarrow> unit result" where
  "update E i d next start w =
     seq (Inr (), copy_props i d w) (\<lambda>u w.
     seq (read_prop w (lookup w i ''view'') ''update'', w) (\<lambda>routine w.
       execute (Num 0) (if start = Undefined then Num (now E) else start)
         (Obj i) routine (Fn (UpdateDone i next)) w))"

text \<open>
  \<^verbatim>\<open>
  function destroy(next, start) {
    execute(0, start === undefined ? performance.now() : start, this, this.view.destroy,
      () => { this.emit("destroy"); if (next !== undefined) { next(); } });
  }
  \<close>
\<close>

definition destroy :: "env \<Rightarrow> addr \<Rightarrow> val \<Rightarrow> val \<Rightarrow> world \<Rightarrow> unit result" where
  "destroy E i next start w =
     seq (read_prop w (lookup w i ''view'') ''destroy'', w) (\<lambda>routine w.
       execute (Num 0) (if start = Undefined then Num (now E) else start)
         (Obj i) routine (Fn (DestroyDone i next)) w)"

text \<open>
  \<^verbatim>\<open>this.emit(type, ...)\<close> inside the completion arrows: the member \<^verbatim>\<open>emit\<close> of the
  instance is looked up and called on it. It is the module's \<^verbatim>\<open>emit\<close> unless the
  instance was given another one.
\<close>

definition call_emit :: "addr \<Rightarrow> string \<Rightarrow> val list \<Rightarrow> world \<Rightarrow> unit result" where
  "call_emit i type args w =
     (case lookup w i ''emit'' of
        Fn LibEmit \<Rightarrow> emit i type (case args of [] \<Rightarrow> Undefined | x # _ \<Rightarrow> x) w
      | f \<Rightarrow> call_val f (Obj i) (Str type # args) w)"

text \<open>
  The executor finishes a walk by calling the completion callback it was given with the
  root element: \<open>complete k element\<close> runs the body of the arrow function \<open>k\<close>.
\<close>

fun complete :: "fn \<Rightarrow> val \<Rightarrow> world \<Rightarrow> unit result" where
  "complete (CreateDone i next) element w =
     seq (call_emit i ''create'' [element] w) (\<lambda>u w.
       if next \<noteq> Undefined then call_val next Undefined [element] w else (Inr (), w))"
| "complete (UpdateDone i next) element w =
     seq (call_emit i ''update'' [] w) (\<lambda>u w.
       if next \<noteq> Undefined then call_val next Undefined [] w else (Inr (), w))"
| "complete (DestroyDone i next) element w =
     seq (call_emit i ''destroy'' [] w) (\<lambda>u w.
       if next \<noteq> Undefined then call_val next Undefined [] w else (Inr (), w))"
| "complete k element w = call_val (Fn k) Undefined [element] w"

section \<open>\<^verbatim>\<open>Moon\<close>\<close>

text \<open>
  \<^verbatim>\<open>
  function MoonComponent(data) {
    this.view.data = this.view.data.bind(this);
    for (let key in data) { this[key] = data[key]; }
  }
  MoonComponent.prototype = data;
  \<close>
  \<open>MoonComponent a d\<close> is \<^verbatim>\<open>new MoonComponent(d)\<close> with the prototype at address \<open>a\<close>;
  it returns the address of the instance.
\<close>

definition MoonComponent :: "addr \<Rightarrow> (string \<rightharpoonup> val) \<Rightarrow> world \<Rightarrow> addr result" where
  "MoonComponent a d w =
     seq (Inr (nxt w), alloc_obj Map.empty (Some a) w) (\<lambda>i w.
     seq (read_prop w (lookup w i ''view'') ''data'', w) (\<lambda>f w.
     seq (bind_fn f i w) (\<lambda>b w.
       case lookup w i ''view'' of
         Obj v \<Rightarrow> (Inr i, copy_props i d (set_prop v ''data'' b w))
       | _ \<Rightarrow> (Inl Unmodelled, w))))"

text \<open>Line 177: \<^verbatim>\<open>data.name = data.name === undefined ? "Root" : data.name;\<close>\<close>

definition Moon_name :: "addr \<Rightarrow> world \<Rightarrow> world" where
  "Moon_name a w =
     set_prop a ''name''
       (if lookup w a ''name'' = Undefined then Str ''Root'' else lookup w a ''name'') w"

text \<open>
  Lines 180 to 188: in a development build a missing view is reported with \<^verbatim>\<open>error\<close>;
  a string view is replaced by what \<^verbatim>\<open>compile\<close> returns, and an exception of
  \<^verbatim>\<open>compile\<close> leaves \<^verbatim>\<open>Moon\<close>.
\<close>

definition report_missing_view :: "env \<Rightarrow> addr \<Rightarrow> world \<Rightarrow> world" where
  "report_missing_view E a w =
     (if development E \<and> lookup w a ''view'' = Undefined
      then log (ErrorLog (lookup w a ''name'')) w else w)"

definition Moon_view :: "env \<Rightarrow> addr \<Rightarrow> world \<Rightarrow> unit result" where
  "Moon_view E a w =
     seq (Inr (lookup w a ''view''), report_missing_view E a w) (\<lambda>view w.
       case view of
         Str s \<Rightarrow>
           (case compile E s of
              Inl msg \<Rightarrow> (Inl (SyntaxError msg), w)
            | Inr members \<Rightarrow>
                (Inr (), set_prop a ''view'' (Obj (nxt w)) (alloc_obj members None w)))
       | _ \<Rightarrow> (Inr (), w))"

text \<open>
  Lines 192 to 216: the three hooks are read and deleted, \<^verbatim>\<open>data.events\<close> becomes a
  new object with three new arrays, and each hook that is not \<^verbatim>\<open>undefined\<close> is pushed
  on its array as it is.
\<close>

definition push_hook :: "addr \<Rightarrow> val \<Rightarrow> world \<Rightarrow> world" where
  "push_hook a hook w = (if hook \<noteq> Undefined then push a hook w else w)"

definition Moon_events :: "addr \<Rightarrow> world \<Rightarrow> world" where
  "Moon_events a w =
     (let onCreate = lookup w a ''onCreate'';
          onUpdate = lookup w a ''onUpdate'';
          onDestroy = lookup w a ''onDestroy'';
          w = del_prop a ''onDestroy'' (del_prop a ''onUpdate'' (del_prop a ''onCreate'' w));
          c = nxt w; w = alloc_arr [] w;
          u = nxt w; w = alloc_arr [] w;
          d = nxt w; w = alloc_arr [] w;
          ev = nxt w;
          w = alloc_obj [''create'' \<mapsto> Arr c, ''update'' \<mapsto> Arr u, ''destroy'' \<mapsto> Arr d] None w;
          w = set_prop a ''events'' (Obj ev) w
      in push_hook d onDestroy (push_hook u onUpdate (push_hook c onCreate w)))"

text \<open>Lines 228 to 235: \<^verbatim>\<open>data\<close> is the prototype, and the members \<^verbatim>\<open>m\<close>,
  \<^verbatim>\<open>create\<close>, \<^verbatim>\<open>update\<close>, \<^verbatim>\<open>destroy\<close>, \<^verbatim>\<open>on\<close>, \<^verbatim>\<open>off\<close>, \<^verbatim>\<open>emit\<close> are assigned on it.\<close>

definition Moon_prototype :: "addr \<Rightarrow> world \<Rightarrow> world" where
  "Moon_prototype a w =
     set_prop a ''emit'' (Fn LibEmit)
      (set_prop a ''off'' (Fn LibOff)
        (set_prop a ''on'' (Fn LibOn)
          (set_prop a ''destroy'' (Fn LibDestroy)
            (set_prop a ''update'' (Fn LibUpdate)
              (set_prop a ''create'' (Fn LibCreate)
                (set_prop a ''m'' (Arr (nxt w)) (alloc_arr [] w)))))))"

text \<open>
  Lines 239 to 258. Without a root the constructor is stored in the registry and
  returned:
  \<^verbatim>\<open>components[name] = MoonComponent;\<close>
  The key is the identifier \<^verbatim>\<open>name\<close>, which the module does not declare: it reads the
  global of that name, and throws a ReferenceError when there is none. With a root, an
  instance is made, \<^verbatim>\<open>instance.create\<close> (the \<^verbatim>\<open>create\<close> just assigned on the
  prototype) is called with the mounting arrow, and the instance is returned.
\<close>

definition Moon_mount :: "env \<Rightarrow> addr \<Rightarrow> world \<Rightarrow> val result" where
  "Moon_mount E a w =
     seq (Inr (case lookup w a ''root'' of Str s \<Rightarrow> querySelector E s | r \<Rightarrow> r),
          del_prop a ''root'' w) (\<lambda>root w.
       if root = Undefined then
         (case global_name E of
            None \<Rightarrow> (Inl ReferenceError, w)
          | Some g \<Rightarrow> (Inr (Fn (Constructor a)), register g (Fn (Constructor a)) w))
       else
         seq (MoonComponent a Map.empty w) (\<lambda>i w.
         seq (create E i (Fn (MountDone root)) Undefined w) (\<lambda>u w.
           (Inr (Obj i), w))))"

text \<open>\<^verbatim>\<open>Moon(data)\<close>, with \<open>a\<close> the address of \<^verbatim>\<open>data\<close>.\<close>

definition Moon :: "env \<Rightarrow> addr \<Rightarrow> world \<Rightarrow> val result" where
  "Moon E a w =
     seq (Moon_view E a (Moon_name a w)) (\<lambda>u w.
       Moon_mount E a (Moon_prototype a (Moon_events a w)))"

section \<open>Observing a run\<close>

text \<open>
  A function of the caller, possibly wrapped by \<^verbatim>\<open>bind\<close>: calling it is recorded as
  one \<open>Call\<close> event, with the function that finally runs and its \<^verbatim>\<open>this\<close>.
\<close>

fun external :: "fn \<Rightarrow> bool" where
  "external (User n) = True"
| "external (Bound n f t) = external f"
| "external f = False"

definition call_event :: "fn \<Rightarrow> val \<Rightarrow> val list \<Rightarrow> event" where
  "call_event g this args = Call (fst (callee g this)) (snd (callee g this)) args"

definition logs :: "event list \<Rightarrow> world \<Rightarrow> world" where
  "logs es w = foldl (\<lambda>w e. log e w) w es"

fun is_execute :: "event \<Rightarrow> bool" where
  "is_execute (Execute f s sc r k) = True"
| "is_execute e = False"

text \<open>The calls of \<^verbatim>\<open>execute\<close> in a trace: the walks that were started.\<close>

definition executes :: "event list \<Rightarrow> event list" where
  "executes t = filter is_execute t"

text \<open>Calls of the lifecycle entry points on one instance, one after the other; an
  exception ends the sequence.\<close>

datatype lifecycle_call =
    CreateCall val val
  | UpdateCall "string \<rightharpoonup> val" val val
  | DestroyCall val val

fun run_call :: "env \<Rightarrow> addr \<Rightarrow> lifecycle_call \<Rightarrow> world \<Rightarrow> unit result" where
  "run_call E i (CreateCall next start) w = create E i next start w"
| "run_call E i (UpdateCall d next start) w = update E i d next start w"
| "run_call E i (DestroyCall next start) w = destroy E i next start w"

fun run_calls :: "env \<Rightarrow> addr \<Rightarrow> lifecycle_call list \<Rightarrow> world \<Rightarrow> unit result" where
  "run_calls E i [] w = (Inr (), w)"
| "run_calls E i (c # cs) w =
     (let r = run_call E i c w
      in case fst r of Inl e \<Rightarrow> (Inl e, snd r) | Inr u \<Rightarrow> run_calls E i cs (snd r))"

subsection \<open>Example inputs\<close>

text \<open>
  A precompiled view object, and a browser in which the global \<^verbatim>\<open>name\<close> is
  \<^verbatim>\<open>window.name\<close>, the empty string, and in which \<^verbatim>\<open>compile\<close> rejects the template
  \<^verbatim>\<open><p\<close>.
\<close>

definition example_view :: "string \<rightharpoonup> val" where
  "example_view =
     [''data'' \<mapsto> Fn (User 0), ''create'' \<mapsto> Fn (User 1), ''update'' \<mapsto> Fn (User 2),
      ''destroy'' \<mapsto> Fn (User 3)]"

definition browser :: env where
  "browser =
     \<lparr>compile = (\<lambda>s. if s = ''<p'' then Inl ''unclosed tag'' else Inr example_view),
      development = False, global_name = Some [], querySelector = (\<lambda>s. Null), now = 0\<rparr>"

text \<open>\<^verbatim>\<open>{name: "Foo", view: v}\<close> at address 1, with the view object \<^verbatim>\<open>v\<close> at address 0.\<close>

definition named_world :: world where
  "named_world =
     alloc_obj [''name'' \<mapsto> Str ''Foo'', ''view'' \<mapsto> Obj 0] None
       (alloc_obj example_view None empty_world)"

text \<open>\<^verbatim>\<open>{view: v, onCreate: h}\<close> at address 1.\<close>

definition hooked_world :: world where
  "hooked_world =
     alloc_obj [''view'' \<mapsto> Obj 0, ''onCreate'' \<mapsto> Fn (User 9)] None
       (alloc_obj example_view None empty_world)"

text \<open>\<^verbatim>\<open>const C = Moon({view: v, onCreate: h}); const instance = new C();\<close> The instance
  is at address 7.\<close>

definition instance_world :: world where
  "instance_world = snd (MoonComponent 1 Map.empty (snd (Moon browser 1 hooked_world)))"

text \<open>\<^verbatim>\<open>{view: v, m: 42}\<close> at address 1.\<close>

definition m_world :: world where
  "m_world =
     alloc_obj [''view'' \<mapsto> Obj 0, ''m'' \<mapsto> Num 42] None
       (alloc_obj example_view None empty_world)"

text \<open>\<^verbatim>\<open>{root: node, view: v, onCreate: h}\<close> at address 1.\<close>

definition rooted_world :: world where
  "rooted_world =
     alloc_obj [''root'' \<mapsto> Node 5, ''view'' \<mapsto> Obj 0, ''onCreate'' \<mapsto> Fn (User 9)] None
       (alloc_obj example_view None empty_world)"

subsection \<open>What \<^verbatim>\<open>Moon\<close> writes on its argument\<close>



section \<open>The executor test\<close>

text \<open>
  The second source file is the test of the executor. It renders a list of numbers with
  the view \<^verbatim>\<open>ExecutorTest\<close>, renders a second list over the first, and checks the live
  elements with \<^verbatim>\<open>verify\<close>. The view and the checks are in the file; the executor that
  patches the document is not.
\<close>

subsection \<open>The view \<^verbatim>\<open>ExecutorTest\<close>\<close>

datatype attr = ABool bool | ANum nat | AStr string

text \<open>
  The description of one \<^verbatim>\<open><p>\<close> element of the view: its tag, its plain attributes
  (\<^verbatim>\<open>lang\<close>, \<^verbatim>\<open>class\<close>, \<^verbatim>\<open>for\<close>, \<^verbatim>\<open>id\<close>), the three object-valued attributes, its
  event bindings and its children, the interpolated values.
\<close>

record vnode =
  vtag :: string
  vplain :: "(string \<times> attr) list"
  variaset :: "(string \<times> attr) list"
  vdataset :: "(string \<times> attr) list"
  vstyle :: "(string \<times> attr) list"
  vevents :: "(string \<times> fn) list"
  vchildren :: "attr list"

datatype branch = IfBranch | ElseIfBranch | ElseBranch

text \<open>\<^verbatim>\<open><if={item % 2 === 0}> ... <else-if={item % 3 === 0}> ... <else>\<close>; the items of
  the test are natural numbers.\<close>

definition branch_of :: "nat \<Rightarrow> branch" where
  "branch_of item =
     (if item mod 2 = 0 then IfBranch else if item mod 3 = 0 then ElseIfBranch else ElseBranch)"

definition handler1 :: fn where
  "handler1 = User 1"

definition handler2 :: fn where
  "handler2 = User 2"

text \<open>The body of \<^verbatim>\<open><for={item, index} of={list}>\<close> for one item (lines 31 to 39).\<close>

definition ExecutorTest_item :: "nat \<Rightarrow> nat \<Rightarrow> vnode" where
  "ExecutorTest_item item index =
     (case branch_of item of
        IfBranch \<Rightarrow>
          \<lparr>vtag = ''p'',
           vplain = [(''lang'', AStr ''en''), (''class'', ANum item), (''for'', ANum item)],
           variaset = [(''hidden'', ABool False), (''removeme'', ABool True)],
           vdataset = [(''foo'', AStr ''bar''), (''removeme'', ABool True)],
           vstyle = [(''color'', AStr ''red''), (''background'', AStr ''blue'')],
           vevents = [(''@click'', handler1)],
           vchildren = [ANum item, ANum index]\<rparr>
      | ElseIfBranch \<Rightarrow>
          \<lparr>vtag = ''p'',
           vplain = [(''lang'', AStr ''en''), (''class'', ANum item), (''for'', ANum item),
                     (''id'', ANum item)],
           variaset = [(''hidden'', ABool False), (''different'', ABool True)],
           vdataset = [(''foo'', AStr ''bar''), (''different'', ABool True)],
           vstyle = [(''color'', AStr ''red''), (''fontSize'', AStr ''20px'')],
           vevents = [(''@click'', handler2)],
           vchildren = [ANum item, ANum index]\<rparr>
      | ElseBranch \<Rightarrow>
          \<lparr>vtag = ''p'', vplain = [(''lang'', AStr ''en'')], variaset = [], vdataset = [],
           vstyle = [], vevents = [], vchildren = [ANum item, ANum index]\<rparr>)"

text \<open>The list of the view: one entry for each item, with the item as its key.\<close>

fun ExecutorTest_from :: "nat \<Rightarrow> nat list \<Rightarrow> (nat \<times> vnode) list" where
  "ExecutorTest_from index [] = []"
| "ExecutorTest_from index (item # items) =
     (item, ExecutorTest_item item index) # ExecutorTest_from (Suc index) items"

definition ExecutorTest :: "nat list \<Rightarrow> (nat \<times> vnode) list" where
  "ExecutorTest list = ExecutorTest_from 0 list"

subsection \<open>Live elements\<close>

text \<open>
  What \<^verbatim>\<open>verify\<close> reads of a live element. The document is the browser's: an attribute,
  a data entry or an event binding that is not set reads as \<^verbatim>\<open>null\<close> or \<^verbatim>\<open>undefined\<close>
  (\<open>None\<close>); \<^verbatim>\<open>className\<close>, \<^verbatim>\<open>id\<close> and a style property that are not set read as the
  empty string; values are strings where the document stores strings.
\<close>

record element =
  tagName :: string
  plain :: "string \<rightharpoonup> attr"
  aria :: "string \<rightharpoonup> string"
  dataset :: "string \<rightharpoonup> string"
  style :: "string \<rightharpoonup> string"
  MoonEvent :: "string \<rightharpoonup> fn"
  textContent :: string

text \<open>\<^verbatim>\<open>item.toString()\<close> and the string the document stores for a value.\<close>

definition digit :: "nat \<Rightarrow> char" where
  "digit d = char_of (48 + d)"

fun toString :: "nat \<Rightarrow> string" where
  "toString n = (if n < 10 then [digit n] else toString (n div 10) @ [digit (n mod 10)])"

declare toString.simps [simp del]

fun shown :: "attr \<Rightarrow> string" where
  "shown (ABool b) = (if b then ''true'' else ''false'')"
| "shown (ANum n) = toString n"
| "shown (AStr s) = s"

definition className :: "element \<Rightarrow> string" where
  "className el = (case plain el ''class'' of None \<Rightarrow> [] | Some v \<Rightarrow> shown v)"

definition id_of :: "element \<Rightarrow> string" where
  "id_of el = (case plain el ''id'' of None \<Rightarrow> [] | Some v \<Rightarrow> shown v)"

definition style_of :: "element \<Rightarrow> string \<Rightarrow> string" where
  "style_of el k = (case style el k of None \<Rightarrow> [] | Some s \<Rightarrow> s)"

text \<open>Modelled from the spec: \<^verbatim>\<open>element.click()\<close> fires the handler that the executor
  bound for \<^verbatim>\<open>@click\<close> and stored on the live node under \<^verbatim>\<open>MoonEvent\<close>, if there is one
  (section 4.4).\<close>

definition click :: "element \<Rightarrow> fn option" where
  "click el = MoonEvent el ''@click''"

subsection \<open>\<^verbatim>\<open>verify\<close>\<close>

text \<open>The three blocks of expectations of \<^verbatim>\<open>verify\<close> (lines 70 to 144). After the
  click, \<^verbatim>\<open>eventResult\<close> is defined when a handler fired and undefined when none did.\<close>

definition expect_if :: "nat \<Rightarrow> nat \<Rightarrow> element \<Rightarrow> bool" where
  "expect_if item i el \<longleftrightarrow>
     tagName el = ''P'' \<and> plain el ''lang'' = Some (AStr ''en'')
     \<and> className el = toString item \<and> plain el ''for'' = Some (ANum item)
     \<and> id_of el = []
     \<and> aria el ''hidden'' = Some ''false'' \<and> aria el ''removeme'' = Some ''true''
     \<and> aria el ''different'' = None
     \<and> dataset el ''foo'' = Some ''bar'' \<and> dataset el ''removeme'' = Some ''true''
     \<and> dataset el ''different'' = None
     \<and> style_of el ''color'' = ''red'' \<and> style_of el ''background'' = ''blue''
     \<and> style_of el ''fontSize'' = []
     \<and> MoonEvent el ''@click'' \<noteq> None
     \<and> textContent el = toString item @ toString i
     \<and> click el \<noteq> None"

definition expect_else_if :: "nat \<Rightarrow> nat \<Rightarrow> element \<Rightarrow> bool" where
  "expect_else_if item i el \<longleftrightarrow>
     tagName el = ''P'' \<and> plain el ''lang'' = Some (AStr ''en'')
     \<and> className el = toString item \<and> plain el ''for'' = Some (ANum item)
     \<and> id_of el = toString item
     \<and> aria el ''hidden'' = Some ''false'' \<and> aria el ''removeme'' = None
     \<and> aria el ''different'' = Some ''true''
     \<and> dataset el ''foo'' = Some ''bar'' \<and> dataset el ''removeme'' = None
     \<and> dataset el ''different'' = Some ''true''
     \<and> style_of el ''color'' = ''red'' \<and> style_of el ''background'' = []
     \<and> style_of el ''fontSize'' = ''20px''
     \<and> MoonEvent el ''@click'' \<noteq> None
     \<and> textContent el = toString item @ toString i
     \<and> click el \<noteq> None"

definition expect_else :: "nat \<Rightarrow> nat \<Rightarrow> element \<Rightarrow> bool" where
  "expect_else item i el \<longleftrightarrow>
     tagName el = ''P'' \<and> plain el ''lang'' = Some (AStr ''en'')
     \<and> className el = []
     \<and> (plain el ''for'' = Some (AStr []) \<or> plain el ''for'' = None)
     \<and> id_of el = []
     \<and> aria el ''hidden'' = None \<and> aria el ''removeme'' = None \<and> aria el ''different'' = None
     \<and> dataset el ''foo'' = None \<and> dataset el ''removeme'' = None
     \<and> dataset el ''different'' = None
     \<and> style_of el ''color'' = [] \<and> style_of el ''background'' = []
     \<and> style_of el ''fontSize'' = []
     \<and> textContent el = toString item @ toString i
     \<and> MoonEvent el ''@click'' = None
     \<and> click el = None"

definition verify_item :: "nat \<Rightarrow> nat \<Rightarrow> element \<Rightarrow> bool" where
  "verify_item item i el =
     (if item mod 2 = 0 then expect_if item i el
      else if item mod 3 = 0 then expect_else_if item i el
      else expect_else item i el)"

text \<open>\<^verbatim>\<open>for (let i = 0; i < list.length; i++)\<close> over the children of the root. Reading
  \<^verbatim>\<open>span.childNodes[i]\<close> past the last child gives \<^verbatim>\<open>undefined\<close>, and the first
  expectation on it throws.\<close>

fun verify_from :: "nat \<Rightarrow> nat list \<Rightarrow> element list \<Rightarrow> bool" where
  "verify_from i [] els = True"
| "verify_from i (item # items) [] = False"
| "verify_from i (item # items) (el # els) =
     (verify_item item i el \<and> verify_from (Suc i) items els)"

definition verify :: "nat list \<Rightarrow> element list \<Rightarrow> bool" where
  "verify list els = verify_from 0 list els"

subsection \<open>The executor\<close>

text \<open>
  The executor (\<^verbatim>\<open>compiler/executor\<close>, imported by \<^verbatim>\<open>index.js\<close>) and the runtime behind
  \<^verbatim>\<open>Moon.run\<close> are not among the sources. What they do to the document is modelled from
  the specification of the executor (sections 3 and 4.4).
\<close>

text \<open>Modelled from the spec: the tag name that the document reports for a new element,
  in upper case (the test expects \<^verbatim>\<open>"P"\<close> for \<^verbatim>\<open><p>\<close>).\<close>

definition upper :: "char \<Rightarrow> char" where
  "upper c = (let n = of_char c :: nat in if 97 \<le> n \<and> n \<le> 122 then char_of (n - 32) else c)"

text \<open>Modelled from the spec: the text of an element, its interpolated children one after
  the other (for the children \<^verbatim>\<open>{item} {index}\<close> the test expects the item and the index
  with nothing between them).\<close>

definition text_of :: "attr list \<Rightarrow> string" where
  "text_of cs = concat (map shown cs)"

text \<open>
  Modelled from the spec: the creation of a live element from its description. The
  element has the tag, the attributes of every category, the event bindings and the text
  of the description; values of the object-valued categories are stored as strings.
\<close>

definition create_element :: "vnode \<Rightarrow> element" where
  "create_element v =
     \<lparr>tagName = map upper (vtag v),
      plain = map_of (vplain v),
      aria = map_option shown \<circ> map_of (variaset v),
      dataset = map_option shown \<circ> map_of (vdataset v),
      style = map_option shown \<circ> map_of (vstyle v),
      MoonEvent = map_of (vevents v),
      textContent = text_of (vchildren v)\<rparr>"

text \<open>
  Modelled from the spec: the executor's diff of one attribute category (section 4.4,
  "keys present in old but absent in new are explicitly removed"). A key of the new
  description is set, a key of the old description that the new one lacks is removed, and
  any other key of the live node is left alone.
\<close>

definition patch_keys ::
  "(string \<times> 'a) list \<Rightarrow> (string \<times> 'a) list \<Rightarrow> ('a \<Rightarrow> 'b) \<Rightarrow> (string \<rightharpoonup> 'b) \<Rightarrow> (string \<rightharpoonup> 'b)" where
  "patch_keys old new f live =
     (\<lambda>k. case map_of new k of
            Some v \<Rightarrow> Some (f v)
          | None \<Rightarrow> (case map_of old k of Some v \<Rightarrow> None | None \<Rightarrow> live k))"

text \<open>
  Modelled from the spec: the executor's node-level diff policy (section 4.4). A different
  tag replaces the element by a new one; the same tag diffs the attributes category by
  category and replaces the text.
\<close>

definition patch_element :: "vnode \<Rightarrow> vnode \<Rightarrow> element \<Rightarrow> element" where
  "patch_element old new el =
     (if vtag old \<noteq> vtag new then create_element new
      else el\<lparr>plain := patch_keys (vplain old) (vplain new) id (plain el),
              aria := patch_keys (variaset old) (variaset new) shown (aria el),
              dataset := patch_keys (vdataset old) (vdataset new) shown (dataset el),
              style := patch_keys (vstyle old) (vstyle new) shown (style el),
              MoonEvent := patch_keys (vevents old) (vevents new) id (MoonEvent el),
              textContent := text_of (vchildren new)\<rparr>)"

text \<open>
  An entry of the live list: its key, the description it was rendered from and its live
  element.
\<close>

type_synonym entry = "nat \<times> vnode \<times> element"

text \<open>Modelled from the spec: the lookup in the executor's index from keys to old
  entries (section 4.4); the first old entry with the key is taken out of the list.\<close>

fun take_key :: "nat \<Rightarrow> entry list \<Rightarrow> (entry \<times> entry list) option" where
  "take_key k [] = None"
| "take_key k (e # es) =
     (if fst e = k then Some (e, es)
      else (case take_key k es of None \<Rightarrow> None | Some (x, rest) \<Rightarrow> Some (x, e # rest)))"

text \<open>
  Modelled from the spec: the executor's reconciliation of a list by key (section 4.4).
  The new sequence is walked in order: an entry whose key is in the old list reuses and
  patches that element, any other is created, and the old entries that were not reused
  are removed.
\<close>

fun reconcile :: "entry list \<Rightarrow> (nat \<times> vnode) list \<Rightarrow> entry list" where
  "reconcile old [] = []"
| "reconcile old (kv # rest) =
     (case take_key (fst kv) old of
        Some (e, old') \<Rightarrow>
          (fst kv, snd kv, patch_element (fst (snd e)) (snd kv) (snd (snd e)))
            # reconcile old' rest
      | None \<Rightarrow> (fst kv, snd kv, create_element (snd kv)) # reconcile old rest)"

text \<open>Modelled from the spec: \<^verbatim>\<open>Moon.run(() => Root({ list }))\<close> of the test, the view of
  the list rendered over the live children by the executor.\<close>

definition run :: "nat list \<Rightarrow> entry list \<Rightarrow> entry list" where
  "run list live = reconcile live (ExecutorTest list)"

definition children :: "entry list \<Rightarrow> element list" where
  "children live = map (\<lambda>e. snd (snd e)) live"

text \<open>\<^verbatim>\<open>assertExecute(before, after)\<close> without its two calls of \<^verbatim>\<open>verify\<close>: the live
  children after both runs, starting from the empty list that \<^verbatim>\<open>Moon.use\<close> set up.\<close>

definition assertExecute :: "nat list \<Rightarrow> nat list \<Rightarrow> entry list" where
  "assertExecute before after = run after (run before [])"

section \<open>Rules for running the model\<close>

lemma seq_Inl [simp]: "seq (Inl e, w) f = (Inl e, w)"
  by (simp add: seq_def)

lemma seq_Inr [simp]: "seq (Inr x, w) f = f x w"
  by (simp add: seq_def)

lemma seq_weak_cong [cong]: "r = r' \<Longrightarrow> seq r f = seq r' f"
  by simp

text \<open>The two recursive functions, with their recursive call as the next statement.\<close>

lemma emit_loop_seq:
  "emit_loop h d i w =
     (case arrs w h of
        None \<Rightarrow> (Inl Unmodelled, w)
      | Some hs \<Rightarrow>
          if i < length hs then
            seq (call_val (hs ! i) (Arr h) [d] w) (\<lambda>u w. emit_loop h d (Suc i) w)
          else (Inr (), w))"
  by (subst emit_loop.simps) (simp add: seq_def Let_def cong: option.case_cong if_cong)

lemma run_calls_Cons [simp]:
  "run_calls E i (c # cs) w = seq (run_call E i c w) (\<lambda>u w. run_calls E i cs w)"
  by (simp add: seq_def Let_def)

declare emit_loop.simps [simp del]

declare run_calls.simps(2) [simp del]

text \<open>What each step on the store leaves of every component of the store.\<close>

lemma own_set_prop [simp]:
  "own (set_prop a k v w) b j = (if b = a \<and> j = k then Some v else own w b j)"
  by (simp add: own_def set_prop_def props_of_def split: option.splits)

lemma own_del_prop [simp]:
  "own (del_prop a k w) b j = (if b = a \<and> j = k then None else own w b j)"
  by (simp add: own_def del_prop_def props_of_def split: option.splits)

lemma own_copy_props [simp]:
  "own (copy_props a d w) b j =
     (if b = a then (case d j of Some v \<Rightarrow> Some v | None \<Rightarrow> own w a j) else own w b j)"
  by (simp add: own_def copy_props_def props_of_def map_add_def split: option.splits)

lemma own_alloc_obj [simp]:
  "own (alloc_obj ps p w) b j = (if b = nxt w then ps j else own w b j)"
  by (simp add: own_def alloc_obj_def)

lemma own_frame [simp]:
  "own (alloc_arr xs w) = own w"
  "own (tick w) = own w"
  "own (set_arr a xs w) = own w"
  "own (push a v w) = own w"
  "own (log e w) = own w"
  "own (register g v w) = own w"
  by (simp_all add: own_def alloc_arr_def tick_def set_arr_def push_def log_def register_def
        fun_eq_iff)

lemma protos_alloc_obj [simp]:
  "protos (alloc_obj ps p w) b = (if b = nxt w then p else protos w b)"
  by (simp add: alloc_obj_def)

lemma protos_frame [simp]:
  "protos (set_prop a k v w) = protos w"
  "protos (del_prop a k w) = protos w"
  "protos (copy_props a d w) = protos w"
  "protos (alloc_arr xs w) = protos w"
  "protos (tick w) = protos w"
  "protos (set_arr a xs w) = protos w"
  "protos (push a v w) = protos w"
  "protos (log e w) = protos w"
  "protos (register g v w) = protos w"
  by (simp_all add: set_prop_def del_prop_def copy_props_def alloc_arr_def tick_def
        set_arr_def push_def log_def register_def)

lemma arrs_alloc_arr [simp]:
  "arrs (alloc_arr xs w) b = (if b = nxt w then Some xs else arrs w b)"
  by (simp add: alloc_arr_def)

lemma arrs_set_arr [simp]:
  "arrs (set_arr a xs w) b = (if b = a then Some xs else arrs w b)"
  by (simp add: set_arr_def)

lemma arrs_push [simp]:
  "arrs (push a v w) b =
     (if b = a then Some ((case arrs w a of None \<Rightarrow> [] | Some xs \<Rightarrow> xs) @ [v]) else arrs w b)"
  by (simp add: push_def)

lemma arrs_frame [simp]:
  "arrs (set_prop a k v w) = arrs w"
  "arrs (del_prop a k w) = arrs w"
  "arrs (copy_props a d w) = arrs w"
  "arrs (alloc_obj ps p w) = arrs w"
  "arrs (tick w) = arrs w"
  "arrs (log e w) = arrs w"
  "arrs (register g v w) = arrs w"
  by (simp_all add: set_prop_def del_prop_def copy_props_def alloc_obj_def tick_def log_def
        register_def)

lemma nxt_alloc [simp]:
  "nxt (alloc_obj ps p w) = Suc (nxt w)"
  "nxt (alloc_arr xs w) = Suc (nxt w)"
  "nxt (tick w) = Suc (nxt w)"
  by (simp_all add: alloc_obj_def alloc_arr_def tick_def)

lemma nxt_frame [simp]:
  "nxt (set_prop a k v w) = nxt w"
  "nxt (del_prop a k w) = nxt w"
  "nxt (copy_props a d w) = nxt w"
  "nxt (set_arr a xs w) = nxt w"
  "nxt (push a v w) = nxt w"
  "nxt (log e w) = nxt w"
  "nxt (register g v w) = nxt w"
  by (simp_all add: set_prop_def del_prop_def copy_props_def set_arr_def push_def log_def
        register_def)

lemma components_register [simp]:
  "components (register g v w) = (components w)(g \<mapsto> v)"
  by (simp add: register_def)

lemma components_frame [simp]:
  "components (set_prop a k v w) = components w"
  "components (del_prop a k w) = components w"
  "components (copy_props a d w) = components w"
  "components (alloc_obj ps p w) = components w"
  "components (alloc_arr xs w) = components w"
  "components (tick w) = components w"
  "components (set_arr a xs w) = components w"
  "components (push a v w) = components w"
  "components (log e w) = components w"
  by (simp_all add: set_prop_def del_prop_def copy_props_def alloc_obj_def alloc_arr_def
        tick_def set_arr_def push_def log_def)

lemma trace_log [simp]: "trace (log e w) = trace w @ [e]"
  by (simp add: log_def)

lemma trace_frame [simp]:
  "trace (set_prop a k v w) = trace w"
  "trace (del_prop a k w) = trace w"
  "trace (copy_props a d w) = trace w"
  "trace (alloc_obj ps p w) = trace w"
  "trace (alloc_arr xs w) = trace w"
  "trace (tick w) = trace w"
  "trace (set_arr a xs w) = trace w"
  "trace (push a v w) = trace w"
  "trace (register g v w) = trace w"
  by (simp_all add: set_prop_def del_prop_def copy_props_def alloc_obj_def alloc_arr_def
        tick_def set_arr_def push_def register_def)

lemma empty_world_simps [simp]:
  "own empty_world a k = None"
  "protos empty_world a = None"
  "arrs empty_world a = None"
  "nxt empty_world = 0"
  "components empty_world g = None"
  "trace empty_world = []"
  by (simp_all add: empty_world_def own_def)

lemma push_hook_simps [simp]:
  "own (push_hook a h w) = own w"
  "protos (push_hook a h w) = protos w"
  "nxt (push_hook a h w) = nxt w"
  "components (push_hook a h w) = components w"
  "trace (push_hook a h w) = trace w"
  "arrs (push_hook a h w) b =
     (if b = a \<and> h \<noteq> Undefined
      then Some ((case arrs w a of None \<Rightarrow> [] | Some xs \<Rightarrow> xs) @ [h]) else arrs w b)"
  by (simp_all add: push_hook_def)

lemma report_missing_view_simps [simp]:
  "own (report_missing_view E a w) = own w"
  "protos (report_missing_view E a w) = protos w"
  "arrs (report_missing_view E a w) = arrs w"
  "nxt (report_missing_view E a w) = nxt w"
  "components (report_missing_view E a w) = components w"
  "trace (report_missing_view E a w) =
     (if development E \<and> lookup w a ''view'' = Undefined
      then trace w @ [ErrorLog (lookup w a ''name'')] else trace w)"
  by (simp_all add: report_missing_view_def)

lemma logs_simps [simp]:
  "logs [] w = w"
  "logs (e # es) w = logs es (log e w)"
  "logs (es @ [e]) w = log e (logs es w)"
  by (simp_all add: logs_def)

lemma logs_frame [simp]:
  "own (logs es w) = own w"
  "protos (logs es w) = protos w"
  "arrs (logs es w) = arrs w"
  "nxt (logs es w) = nxt w"
  "components (logs es w) = components w"
  "trace (logs es w) = trace w @ es"
  by (induction es arbitrary: w) simp_all

text \<open>The names that the module reads are not names of \<^verbatim>\<open>Object.prototype\<close>.\<close>

lemma inherited_names [simp]:
  "inherited p ''name'' = Undefined"
  "inherited p ''view'' = Undefined"
  "inherited p ''root'' = Undefined"
  "inherited p ''events'' = Undefined"
  "inherited p ''onCreate'' = Undefined"
  "inherited p ''onUpdate'' = Undefined"
  "inherited p ''onDestroy'' = Undefined"
  "inherited p ''m'' = Undefined"
  "inherited p ''data'' = Undefined"
  "inherited p ''create'' = Undefined"
  "inherited p ''update'' = Undefined"
  "inherited p ''destroy'' = Undefined"
  "inherited p ''on'' = Undefined"
  "inherited p ''off'' = Undefined"
  "inherited p ''emit'' = Undefined"
  by (simp_all add: inherited_def Object_prototype_def)

lemma lookup_frame [simp]:
  "lookup (log e w) = lookup w"
  "lookup (logs es w) = lookup w"
  "lookup (tick w) = lookup w"
  by (simp_all add: lookup_def fun_eq_iff cong: option.case_cong)

lemma lookup_Moon_name: "k \<noteq> ''name'' \<Longrightarrow> lookup (Moon_name a w) b k = lookup w b k"
  by (simp add: Moon_name_def lookup_def cong: option.case_cong)

lemmas run_defs =
  Moon_def Moon_view_def Moon_name_def Moon_mount_def Moon_prototype_def Moon_events_def
  MoonComponent_def create_def update_def destroy_def on_def off_def emit_def call_emit_def
  lookup_def read_prop_def call_val_def bind_fn_def execute_def Let_def emit_loop_seq

lemmas example_defs =
  example_view_def browser_def named_world_def hooked_world_def instance_world_def m_world_def
  rooted_world_def

subsection \<open>Calls of the caller's functions\<close>

lemma callee_external: "external g \<Longrightarrow> external (fst (callee g this))"
  by (induction g this rule: callee.induct) simp_all

lemma call_val_external:
  "external g \<Longrightarrow> call_val (Fn g) this args w = (Inr (), log (call_event g this args) w)"
  using callee_external [of g this]
  by (cases "fst (callee g this)") (simp_all add: call_val_def call_event_def)

text \<open>The loop of \<^verbatim>\<open>emit\<close> from index \<open>i\<close> on, over handlers of the caller.\<close>

lemma emit_loop_external:
  "arrs w h = Some (map Fn gs) \<Longrightarrow> \<forall>g \<in> set gs. external g \<Longrightarrow>
   emit_loop h d i w = (Inr (), logs (map (\<lambda>g. call_event g (Arr h) [d]) (drop i gs)) w)"
proof (induction h d i w rule: emit_loop.induct)
  case (1 h d i w)
  show ?case
  proof (cases "i < length gs")
    case True
    then have ext: "external (gs ! i)"
      using 1(3) by simp
    have step: "call_val (map Fn gs ! i) (Arr h) [d] w
                  = (Inr (), log (call_event (gs ! i) (Arr h) [d]) w)"
      using True ext by (simp add: call_val_external)
    have ih: "emit_loop h d (Suc i) (log (call_event (gs ! i) (Arr h) [d]) w)
        = (Inr (), logs (map (\<lambda>g. call_event g (Arr h) [d]) (drop (Suc i) gs))
             (log (call_event (gs ! i) (Arr h) [d]) w))"
      using 1(1) [OF 1(2) _ refl, of "()"] True 1(2) 1(3) step by simp
    have d: "drop i gs = gs ! i # drop (Suc i) gs"
      using True by (simp add: Cons_nth_drop_Suc)
    show ?thesis
      using True 1(2) step ih by (subst emit_loop_seq) (simp add: d)
  next
    case False
    then show ?thesis
      using 1(2) by (subst emit_loop_seq) simp
  qed
qed

subsection \<open>\<^verbatim>\<open>indexOf\<close>, \<^verbatim>\<open>splice\<close> and \<^verbatim>\<open>bind\<close>\<close>




subsection \<open>Every lifecycle call that returns has called \<^verbatim>\<open>execute\<close> once\<close>

lemma call_val_executes:
  "filter is_execute (trace (snd (call_val f this args w))) = filter is_execute (trace w)"
  by (simp add: call_val_def split: val.splits fn.splits)

lemma create_executes:
  "create E i next start w = (Inr u, w') \<Longrightarrow>
   length (executes (trace w')) = Suc (length (executes (trace w)))"
  unfolding create_def seq_def execute_def
  by (auto simp: executes_def call_val_executes split: sum.splits)

lemma update_executes:
  "update E i d next start w = (Inr u, w') \<Longrightarrow>
   length (executes (trace w')) = Suc (length (executes (trace w)))"
  unfolding update_def seq_def execute_def
  by (auto simp: executes_def split: sum.splits)

lemma destroy_executes:
  "destroy E i next start w = (Inr u, w') \<Longrightarrow>
   length (executes (trace w')) = Suc (length (executes (trace w)))"
  unfolding destroy_def seq_def execute_def
  by (auto simp: executes_def split: sum.splits)

lemma run_call_executes:
  "run_call E i c w = (Inr u, w') \<Longrightarrow>
   length (executes (trace w')) = Suc (length (executes (trace w)))"
  by (cases c) (simp_all add: create_executes update_executes destroy_executes)

subsection \<open>The shape of a run of \<^verbatim>\<open>Moon\<close> that returns\<close>

















subsection \<open>The example instance\<close>

lemma instance_world_facts:
  "lookup instance_world 7 ''view'' = Obj 0"
  "lookup instance_world 0 ''data'' = Fn (Bound 8 (User 0) 7)"
  "lookup instance_world 0 ''create'' = Fn (User 1)"
  "lookup instance_world 0 ''update'' = Fn (User 2)"
  "lookup instance_world 0 ''destroy'' = Fn (User 3)"
  "lookup instance_world 7 ''emit'' = Fn LibEmit"
  "lookup instance_world 7 ''events'' = Obj 5"
  "lookup instance_world 5 ''create'' = Arr 2"
  "lookup instance_world 5 ''mount'' = Undefined"
  "arrs instance_world 2 = Some [Fn (User 9)]"
  "nxt instance_world = 9"
  "trace instance_world = []"
  "protos instance_world 5 = None"
  "own instance_world 5 ''mount'' = None"
  "own instance_world 5 ''valueOf'' = None"
  by (simp_all add: run_defs example_defs inherited_def Object_prototype_def
      cong: let_weak_cong)

subsection \<open>\<^verbatim>\<open>emit\<close> for a type without an entry\<close>

text \<open>
  On an \<^verbatim>\<open>events\<close> object made by an object literal, a type without an entry reads as
  what \<^verbatim>\<open>Object.prototype\<close> has under that name. The loop of \<^verbatim>\<open>emit\<close> has no round for
  the three inherited functions of length 0 and for \<^verbatim>\<open>__proto__\<close>; for every other
  name \<^verbatim>\<open>emit\<close> throws.
\<close>

lemma emit_no_entry:
  assumes "lookup w i ''events'' = Obj ev" and "protos w ev = None" and "own w ev type = None"
  shows "emit i type d w =
           (if type \<in> {''toString'', ''toLocaleString'', ''valueOf'', ''__proto__''}
            then (Inr (), w) else (Inl TypeError, w))"
  using assms
  by (simp add: emit_def read_prop_def lookup_def inherited_def emit_native_def
      Object_prototype_def)

lemma off_all_events:
  assumes "i < nxt w"
  shows "lookup (snd (off i None handler w)) i ''events'' = Obj (nxt w)"
    and "protos (snd (off i None handler w)) (nxt w) = None"
    and "own (snd (off i None handler w)) (nxt w) type = None"
  using assms by (simp_all add: off_def lookup_def)

section \<open>The claims\<close>

subsection \<open>C1: the replace scenario \<^verbatim>\<open>[2] -> [5]\<close>\<close>

text \<open>
  C1 says that after the list \<^verbatim>\<open>[2]\<close> is replaced by \<^verbatim>\<open>[5]\<close> the rendered item matches
  the rules for \<^verbatim>\<open>5\<close>, namely the else-if branch. But \<^verbatim>\<open>5 % 2\<close> is 1 and \<^verbatim>\<open>5 % 3\<close> is 2:
  the view and \<^verbatim>\<open>verify\<close> both take the else branch for 5, and the expectations of the
  else-if branch fail on the element that is rendered.
\<close>

theorem five_is_not_else_if:
  "branch_of 5 = ElseBranch
   \<and> \<not> expect_else_if 5 0 (hd (children (assertExecute [2] [5])))"
  by code_simp

text \<open>
  C1 as amended: after the list \<^verbatim>\<open>[2]\<close> is replaced by \<^verbatim>\<open>[5]\<close> there is one rendered
  item, \<^verbatim>\<open>verify([5])\<close> passes on it, that is, it matches the else branch (a \<^verbatim>\<open><p>\<close> with
  \<^verbatim>\<open>lang="en"\<close> and the text \<^verbatim>\<open>50\<close>, no class, for, id, aria, data or style entry and
  no click binding), and a click on it fires no handler, while a click on the item
  rendered for \<^verbatim>\<open>[2]\<close> fired \<^verbatim>\<open>handler1\<close>. The element of \<^verbatim>\<open>2\<close> patched in place
  with the description of \<^verbatim>\<open>5\<close> matches the else branch as well.
\<close>

theorem replace_2_by_5_renders_else_branch:
  "length (assertExecute [2] [5]) = 1
   \<and> verify [5] (children (assertExecute [2] [5]))
   \<and> expect_else 5 0 (hd (children (assertExecute [2] [5])))
   \<and> click (hd (children (assertExecute [2] [5]))) = None
   \<and> expect_else 5 0 (patch_element (ExecutorTest_item 2 0) (ExecutorTest_item 5 0)
         (create_element (ExecutorTest_item 2 0)))
   \<and> verify [2] (children (run [2] []))
   \<and> click (hd (children (run [2] []))) = Some handler1"
  by code_simp

subsection \<open>C2: the registry key\<close>

text \<open>
  C2 says that \<^verbatim>\<open>Moon(data)\<close> without a root stores the returned constructor in the
  component registry under the component's own name \<^verbatim>\<open>data.name\<close>. The code stores it
  under the identifier \<^verbatim>\<open>name\<close>, which is not \<^verbatim>\<open>data.name\<close>: for
  \<^verbatim>\<open>Moon({name: "Foo", view: v})\<close> in a browser, where \<^verbatim>\<open>name\<close> is \<^verbatim>\<open>window.name\<close>, the
  empty string, the constructor is returned, \<^verbatim>\<open>data.name\<close> is \<^verbatim>\<open>"Foo"\<close>,
  \<^verbatim>\<open>components["Foo"]\<close> stays undefined and the constructor is under \<^verbatim>\<open>components[""]\<close>.
  Where there is no global \<^verbatim>\<open>name\<close>, the same call throws a ReferenceError.
\<close>

theorem Moon_registers_under_global_name:
  "fst (Moon browser 1 named_world) = Inr (Fn (Constructor 1))
   \<and> lookup (snd (Moon browser 1 named_world)) 1 ''name'' = Str ''Foo''
   \<and> components (snd (Moon browser 1 named_world)) ''Foo'' = None
   \<and> components (snd (Moon browser 1 named_world)) [] = Some (Fn (Constructor 1))
   \<and> fst (Moon (browser\<lparr>global_name := None\<rparr>) 1 named_world) = Inl ReferenceError"
  by (simp add: run_defs example_defs cong: let_weak_cong)

subsection \<open>C3: no queue in the lifecycle wrapper\<close>

text \<open>
  C3 says that a call of \<^verbatim>\<open>create\<close>, \<^verbatim>\<open>update\<close> or \<^verbatim>\<open>destroy\<close> made while a walk of
  the same instance is pending is queued by the lifecycle wrapper behind that walk. The
  wrapper has no queue. Two calls of \<^verbatim>\<open>update\<close> in a row on one instance are two calls
  of \<^verbatim>\<open>execute\<close>, the second made while the completion callback of the first has not
  been called.
\<close>

theorem second_update_is_not_queued:
  "trace (snd (run_calls browser 7
      [UpdateCall Map.empty Undefined Undefined, UpdateCall Map.empty Undefined Undefined]
      instance_world))
   = [Execute (Num 0) (Num 0) (Obj 7) (Fn (User 2)) (Fn (UpdateDone 7 Undefined)),
      Execute (Num 0) (Num 0) (Obj 7) (Fn (User 2)) (Fn (UpdateDone 7 Undefined))]"
  by (simp add: run_defs example_defs cong: let_weak_cong)

text \<open>
  C3 as amended: every call of \<^verbatim>\<open>create\<close>, \<^verbatim>\<open>update\<close> or \<^verbatim>\<open>destroy\<close> that returns
  has called \<^verbatim>\<open>execute\<close> exactly once before it returns, whatever walks are pending:
  after a sequence of such calls on an instance, \<^verbatim>\<open>execute\<close> has been called once more
  for each call of the sequence.
\<close>

theorem every_call_starts_its_walk:
  "run_calls E i cs w = (Inr u, w') \<Longrightarrow>
   length (executes (trace w')) = length (executes (trace w)) + length cs"
proof (induction cs arbitrary: w)
  case Nil
  then show ?case by simp
next
  case (Cons c cs)
  obtain r w1 where c: "run_call E i c w = (r, w1)"
    by (cases "run_call E i c w")
  show ?case
  proof (cases r)
    case (Inl e)
    with Cons.prems c show ?thesis by simp
  next
    case (Inr x)
    with Cons.prems c have "run_calls E i cs w1 = (Inr u, w')" by simp
    from Cons.IH [OF this] run_call_executes [of E i c w x w1] c Inr
    show ?thesis by simp
  qed
qed

theorem every_call_starts_its_walk_witness:
  "fst (run_calls browser 7
          [UpdateCall Map.empty Undefined Undefined, DestroyCall Undefined Undefined]
          instance_world) = Inr ()
   \<and> length (executes (trace (snd (run_calls browser 7
          [UpdateCall Map.empty Undefined Undefined, DestroyCall Undefined Undefined]
          instance_world)))) = 2"
proof -
  let ?r = "run_calls browser 7
      [UpdateCall Map.empty Undefined Undefined, DestroyCall Undefined Undefined] instance_world"
  have ok: "fst ?r = Inr ()"
    by (simp add: run_defs example_defs cong: let_weak_cong)
  then have "?r = (Inr (), snd ?r)"
    by (metis prod.collapse)
  from every_call_starts_its_walk [OF this] ok instance_world_facts
  show ?thesis by (simp add: executes_def)
qed

subsection \<open>C4: keys that the new description lacks are removed\<close>

text \<open>
  C4: after a patch of an element, every key of \<^verbatim>\<open>dataset\<close>, \<^verbatim>\<open>style\<close> and \<^verbatim>\<open>ariaset\<close>
  and every event binding that the old description had and the new one lacks is absent
  from the live element, whatever the live element held before.
\<close>

theorem removed_keys_are_absent:
  "(map_of (vdataset old) k \<noteq> None \<longrightarrow> map_of (vdataset new) k = None \<longrightarrow>
      dataset (patch_element old new el) k = None)
   \<and> (map_of (vstyle old) k \<noteq> None \<longrightarrow> map_of (vstyle new) k = None \<longrightarrow>
      style (patch_element old new el) k = None)
   \<and> (map_of (variaset old) k \<noteq> None \<longrightarrow> map_of (variaset new) k = None \<longrightarrow>
      aria (patch_element old new el) k = None)
   \<and> (map_of (vevents old) k \<noteq> None \<longrightarrow> map_of (vevents new) k = None \<longrightarrow>
      MoonEvent (patch_element old new el) k = None)"
  by (auto simp: patch_element_def patch_keys_def create_element_def)

text \<open>The example of the claim: an item that goes from the if branch to the else
  branch.\<close>

theorem removed_keys_are_absent_witness:
  "dataset (patch_element (ExecutorTest_item 2 0) (ExecutorTest_item 5 0)
      (create_element (ExecutorTest_item 2 0))) ''removeme'' = None
   \<and> aria (patch_element (ExecutorTest_item 2 0) (ExecutorTest_item 5 0)
      (create_element (ExecutorTest_item 2 0))) ''removeme'' = None
   \<and> style (patch_element (ExecutorTest_item 2 0) (ExecutorTest_item 5 0)
      (create_element (ExecutorTest_item 2 0))) ''background'' = None
   \<and> MoonEvent (patch_element (ExecutorTest_item 2 0) (ExecutorTest_item 5 0)
      (create_element (ExecutorTest_item 2 0))) ''@click'' = None"
  using removed_keys_are_absent [of "ExecutorTest_item 2 0" "''removeme''" "ExecutorTest_item 5 0"
      "create_element (ExecutorTest_item 2 0)"]
    removed_keys_are_absent [of "ExecutorTest_item 2 0" "''background''" "ExecutorTest_item 5 0"
      "create_element (ExecutorTest_item 2 0)"]
    removed_keys_are_absent [of "ExecutorTest_item 2 0" "''@click''" "ExecutorTest_item 5 0"
      "create_element (ExecutorTest_item 2 0)"]
  by (simp add: ExecutorTest_item_def branch_of_def)

subsection \<open>C5: a compilation error leaves \<^verbatim>\<open>Moon\<close>\<close>

text \<open>
  C5: when \<^verbatim>\<open>Moon(data)\<close> is given a string view that \<^verbatim>\<open>compile\<close> rejects, the
  exception of \<^verbatim>\<open>compile\<close> leaves \<^verbatim>\<open>Moon\<close>. All that \<^verbatim>\<open>Moon\<close> has done by then is to
  set \<^verbatim>\<open>data.name\<close>: nothing was called (the trace is as before, so \<^verbatim>\<open>execute\<close> was not
  called), nothing was allocated (no instance was constructed), and the registry is as
  before.
\<close>

theorem compile_error_leaves_Moon:
  assumes "lookup w a ''view'' = Str s" and "compile E s = Inl msg"
  shows "Moon E a w = (Inl (SyntaxError msg), Moon_name a w)
         \<and> trace (Moon_name a w) = trace w \<and> nxt (Moon_name a w) = nxt w
         \<and> components (Moon_name a w) = components w"
proof -
  have v: "lookup (Moon_name a w) a ''view'' = Str s"
    using assms(1) by (simp add: lookup_Moon_name)
  have r: "report_missing_view E a (Moon_name a w) = Moon_name a w"
    using v by (simp add: report_missing_view_def)
  show ?thesis
    using v r assms(2) by (simp add: Moon_def Moon_view_def) (simp add: Moon_name_def)
qed

theorem compile_error_leaves_Moon_witness:
  "Moon browser 0 (alloc_obj [''view'' \<mapsto> Str ''<p''] None empty_world)
     = (Inl (SyntaxError ''unclosed tag''),
        Moon_name 0 (alloc_obj [''view'' \<mapsto> Str ''<p''] None empty_world))
   \<and> trace (Moon_name 0 (alloc_obj [''view'' \<mapsto> Str ''<p''] None empty_world)) = []
   \<and> nxt (Moon_name 0 (alloc_obj [''view'' \<mapsto> Str ''<p''] None empty_world)) = 1"
  using compile_error_leaves_Moon [of "alloc_obj [''view'' \<mapsto> Str ''<p''] None empty_world" 0
      "''<p''" browser "''unclosed tag''"]
  by (simp add: lookup_def browser_def)

subsection \<open>C6: the order of the \<^verbatim>\<open>create\<close> event and \<^verbatim>\<open>next\<close>\<close>

text \<open>
  C6 says that when a create walk completes, the \<^verbatim>\<open>create\<close> event is emitted after the
  caller's \<^verbatim>\<open>next\<close> was called. The completion callback does it the other way round.
  On the example instance with one more handler registered, the hook and the handler are
  called with the element before \<^verbatim>\<open>next\<close> is.
\<close>

theorem handlers_run_before_next:
  "trace (snd (complete (CreateDone 7 (Fn (User 21))) (Node 1)
            (snd (on 7 ''create'' (Fn (User 20)) instance_world))))
   = [Call (User 9) (Arr 2) [Node 1], Call (User 20) (Obj 7) [Node 1],
      Call (User 21) Undefined [Node 1]]"
  by (simp add: run_defs example_defs cong: let_weak_cong)

text \<open>
  C6 as amended: when the completion callback that \<^verbatim>\<open>create\<close> handed to \<^verbatim>\<open>execute\<close> is
  called with the root element, it first emits the \<^verbatim>\<open>create\<close> event (every handler of
  \<^verbatim>\<open>events.create\<close> is called with the element, in the order of the list) and then calls
  the caller's \<^verbatim>\<open>next\<close> with the element, if one was given.
\<close>

theorem create_event_before_next:
  assumes "lookup w i ''emit'' = Fn LibEmit"
    and "lookup w i ''events'' = Obj ev" and "lookup w ev ''create'' = Arr h"
    and "arrs w h = Some (map Fn gs)" and "\<forall>g \<in> set gs. external g"
    and "next = Undefined \<or> (\<exists>n. next = Fn n \<and> external n)"
  shows "complete (CreateDone i next) element w =
           (Inr (),
            logs (map (\<lambda>g. call_event g (Arr h) [element]) gs
                  @ (case next of Fn n \<Rightarrow> [call_event n Undefined [element]] | _ \<Rightarrow> [])) w)"
proof -
  have e: "call_emit i ''create'' [element] w
             = (Inr (), logs (map (\<lambda>g. call_event g (Arr h) [element]) gs) w)"
    using assms(1-5) emit_loop_external [of w h gs element 0]
    by (simp add: call_emit_def emit_def read_prop_def)
  from assms(6) show ?thesis
  proof
    assume "next = Undefined"
    then show ?thesis using e by simp
  next
    assume "\<exists>n. next = Fn n \<and> external n"
    then obtain n where n: "next = Fn n" "external n" by blast
    then show ?thesis using e by (simp add: call_val_external)
  qed
qed

theorem create_event_before_next_witness:
  "complete (CreateDone 7 (Fn (User 21))) (Node 1) instance_world
     = (Inr (),
        logs [Call (User 9) (Arr 2) [Node 1], Call (User 21) Undefined [Node 1]] instance_world)"
  using create_event_before_next [of instance_world 7 5 2 "[User 9]" "Fn (User 21)" "Node 1"]
    instance_world_facts
  by (simp add: call_event_def)

subsection \<open>C7: what the lifecycle entry points hand to \<^verbatim>\<open>execute\<close>\<close>



subsection \<open>C8: \<^verbatim>\<open>off\<close> with a handler that \<^verbatim>\<open>on\<close> registered\<close>




subsection \<open>C9: what \<^verbatim>\<open>Moon\<close> does to its argument\<close>




subsection \<open>C10: \<^verbatim>\<open>emit\<close>\<close>

text \<open>
  C10 says that \<^verbatim>\<open>emit(type, data)\<close> throws for every type that has no entry in the
  \<^verbatim>\<open>events\<close> map of the instance, as for every type after \<^verbatim>\<open>off()\<close> without arguments.
  The map is an object, and \<^verbatim>\<open>events[type]\<close> finds what the object inherits from
  \<^verbatim>\<open>Object.prototype\<close>. On the example instance after \<^verbatim>\<open>off()\<close> the new \<^verbatim>\<open>events\<close>
  object has no entry \<^verbatim>\<open>toString\<close>, \<^verbatim>\<open>events["toString"]\<close> is the inherited function,
  whose \<^verbatim>\<open>length\<close> is 0, and \<^verbatim>\<open>emit("toString", node)\<close> returns without a throw and
  without a call.
\<close>

theorem emit_toString_does_not_throw:
  "lookup (snd (off 7 None Undefined instance_world)) 7 ''events'' = Obj 9
   \<and> own (snd (off 7 None Undefined instance_world)) 9 ''toString'' = None
   \<and> lookup (snd (off 7 None Undefined instance_world)) 9 ''toString'' = Fn (Native ''toString'')
   \<and> emit 7 ''toString'' (Node 1) (snd (off 7 None Undefined instance_world))
     = (Inr (), snd (off 7 None Undefined instance_world))"
proof -
  have n: "(7::nat) < nxt instance_world" "nxt instance_world = 9"
    by (simp_all add: instance_world_facts)
  from off_all_events [OF n(1), of Undefined] n(2)
  have e: "lookup (snd (off 7 None Undefined instance_world)) 7 ''events'' = Obj 9"
    and p: "protos (snd (off 7 None Undefined instance_world)) 9 = None"
    and o: "own (snd (off 7 None Undefined instance_world)) 9 ''toString'' = None"
    by simp_all
  from p o have "lookup (snd (off 7 None Undefined instance_world)) 9 ''toString''
      = Fn (Native ''toString'')"
    by (simp add: lookup_def inherited_def Object_prototype_def)
  with e o emit_no_entry [OF e p o, of "Node 1"] show ?thesis
    by simp
qed

text \<open>
  C10 as amended: \<^verbatim>\<open>emit(type, data)\<close> calls every handler of \<^verbatim>\<open>events[type]\<close> with
  \<^verbatim>\<open>data\<close>, in the order of the list, and it throws a TypeError when \<^verbatim>\<open>events[type]\<close>
  is undefined. For a type without an entry in an \<^verbatim>\<open>events\<close> map that is a plain object
  it throws a TypeError and leaves the store as it is, unless the type is \<^verbatim>\<open>toString\<close>,
  \<^verbatim>\<open>toLocaleString\<close>, \<^verbatim>\<open>valueOf\<close> or \<^verbatim>\<open>__proto__\<close>: for these four names, which every
  object inherits from \<^verbatim>\<open>Object.prototype\<close>, it calls nothing and returns. So it is after
  \<^verbatim>\<open>off()\<close> without arguments, which gives the instance a new empty \<^verbatim>\<open>events\<close> object:
  \<^verbatim>\<open>emit\<close> throws for every type but these four, \<^verbatim>\<open>create\<close>, \<^verbatim>\<open>update\<close> and
  \<^verbatim>\<open>destroy\<close> included.
\<close>

theorem emit_throws_unless_inherited:
  "(lookup w i ''events'' = Obj ev \<longrightarrow> lookup w ev type = Arr h \<longrightarrow>
      arrs w h = Some (map Fn gs) \<longrightarrow> (\<forall>g \<in> set gs. external g) \<longrightarrow>
      emit i type d w = (Inr (), logs (map (\<lambda>g. call_event g (Arr h) [d]) gs) w))
   \<and> (lookup w i ''events'' = Obj ev \<longrightarrow> lookup w ev type = Undefined \<longrightarrow>
      emit i type d w = (Inl TypeError, w))
   \<and> (lookup w i ''events'' = Obj ev \<longrightarrow> protos w ev = None \<longrightarrow> own w ev type = None \<longrightarrow>
      emit i type d w =
        (if type \<in> {''toString'', ''toLocaleString'', ''valueOf'', ''__proto__''}
         then (Inr (), w) else (Inl TypeError, w)))
   \<and> (i < nxt w \<longrightarrow>
      emit i type d (snd (off i None handler w)) =
        (if type \<in> {''toString'', ''toLocaleString'', ''valueOf'', ''__proto__''}
         then (Inr (), snd (off i None handler w))
         else (Inl TypeError, snd (off i None handler w))))
   \<and> (i < nxt w \<longrightarrow>
      emit i ''create'' d (snd (off i None handler w)) = (Inl TypeError, snd (off i None handler w))
      \<and> emit i ''update'' d (snd (off i None handler w)) = (Inl TypeError, snd (off i None handler w))
      \<and> emit i ''destroy'' d (snd (off i None handler w)) = (Inl TypeError, snd (off i None handler w)))"
proof (intro conjI impI)
  assume "lookup w i ''events'' = Obj ev" "lookup w ev type = Arr h"
    "arrs w h = Some (map Fn gs)" "\<forall>g \<in> set gs. external g"
  then show "emit i type d w = (Inr (), logs (map (\<lambda>g. call_event g (Arr h) [d]) gs) w)"
    using emit_loop_external [of w h gs d 0] by (simp add: emit_def read_prop_def)
next
  assume "lookup w i ''events'' = Obj ev" "lookup w ev type = Undefined"
  then show "emit i type d w = (Inl TypeError, w)"
    by (simp add: emit_def read_prop_def)
next
  assume "lookup w i ''events'' = Obj ev" "protos w ev = None" "own w ev type = None"
  then show "emit i type d w =
      (if type \<in> {''toString'', ''toLocaleString'', ''valueOf'', ''__proto__''}
       then (Inr (), w) else (Inl TypeError, w))"
    by (rule emit_no_entry)
next
  assume i: "i < nxt w"
  show "emit i type d (snd (off i None handler w)) =
      (if type \<in> {''toString'', ''toLocaleString'', ''valueOf'', ''__proto__''}
       then (Inr (), snd (off i None handler w))
       else (Inl TypeError, snd (off i None handler w)))"
    using emit_no_entry [of "snd (off i None handler w)" i "nxt w" type d]
      off_all_events [OF i, of handler]
    by simp
next
  assume i: "i < nxt w"
  show "emit i ''create'' d (snd (off i None handler w)) = (Inl TypeError, snd (off i None handler w))"
    using emit_no_entry [of "snd (off i None handler w)" i "nxt w" "''create''" d]
      off_all_events [OF i, of handler]
    by simp
next
  assume i: "i < nxt w"
  show "emit i ''update'' d (snd (off i None handler w)) = (Inl TypeError, snd (off i None handler w))"
    using emit_no_entry [of "snd (off i None handler w)" i "nxt w" "''update''" d]
      off_all_events [OF i, of handler]
    by simp
next
  assume i: "i < nxt w"
  show "emit i ''destroy'' d (snd (off i None handler w)) = (Inl TypeError, snd (off i None handler w))"
    using emit_no_entry [of "snd (off i None handler w)" i "nxt w" "''destroy''" d]
      off_all_events [OF i, of handler]
    by simp
qed

theorem emit_throws_unless_inherited_witness:
  "emit 7 ''create'' (Node 1) instance_world
     = (Inr (), logs [Call (User 9) (Arr 2) [Node 1]] instance_world)
   \<and> emit 7 ''mount'' (Node 1) instance_world = (Inl TypeError, instance_world)
   \<and> emit 7 ''valueOf'' (Node 1) instance_world = (Inr (), instance_world)
   \<and> emit 7 ''create'' (Node 1) (snd (off 7 None Undefined instance_world))
     = (Inl TypeError, snd (off 7 None Undefined instance_world))
   \<and> emit 7 ''__proto__'' (Node 1) (snd (off 7 None Undefined instance_world))
     = (Inr (), snd (off 7 None Undefined instance_world))"
  using emit_throws_unless_inherited [where w = instance_world and i = 7 and ev = 5
      and type = "''create''" and h = 2 and gs = "[User 9]" and d = "Node 1"
      and handler = Undefined]
    emit_throws_unless_inherited [where w = instance_world and i = 7 and ev = 5
      and type = "''mount''" and d = "Node 1"]
    emit_throws_unless_inherited [where w = instance_world and i = 7 and ev = 5
      and type = "''valueOf''" and d = "Node 1"]
    emit_throws_unless_inherited [where w = instance_world and i = 7
      and type = "''__proto__''" and d = "Node 1" and handler = Undefined]
    instance_world_facts
  by (simp add: call_event_def)

end
